theory Spec2Isabelle
  imports Main
begin

section \<open>The scheduled-delivery server: data model\<close>

text \<open>
  The repository holds two versions of the same Express server: \<^verbatim>\<open>server.js\<close> (the file
  the Dockerfile starts) and a longer, commented version of it (the second source file,
  called \<^verbatim>\<open>part_000\<close> below). Both keep one in-memory \<^verbatim>\<open>Map\<close>, \<^verbatim>\<open>scheduledTasks\<close>, one
  upload directory and one timer per accepted request. They are modelled side by side over
  one state type; a definition without suffix follows \<^verbatim>\<open>server.js\<close>, a definition ending
  in \<^verbatim>\<open>_part000\<close> follows the second file, and a definition used by both is text that the
  two files share word for word.

  A text field of \<^verbatim>\<open>req.body\<close> is a string or \<^verbatim>\<open>undefined\<close>; \<open>None\<close> is \<^verbatim>\<open>undefined\<close>.
  The keys of \<^verbatim>\<open>scheduledTasks\<close> are such fields (\<^verbatim>\<open>uiId\<close> is stored as it arrives, and
  \<^verbatim>\<open>undefined\<close> is a legal \<^verbatim>\<open>Map\<close> key).
\<close>

type_synonym field = "string option"

type_synonym json = "(string \<times> field) list"

record response =
  http_status :: nat
  http_body :: json

text \<open>The value stored in the map: \<^verbatim>\<open>{ timeout, filePath: file.path }\<close>.\<close>

record task =
  timeout :: nat
  filePath :: string

text \<open>
  The variables captured by the \<^verbatim>\<open>setTimeout\<close> callback: \<^verbatim>\<open>file.path\<close>, \<^verbatim>\<open>groupId\<close> and
  \<^verbatim>\<open>uiId\<close>.
\<close>

record closure =
  cb_path :: string
  cb_groupId :: field
  cb_uiId :: field

text \<open>An armed timer: the delay the runtime really uses, and the callback's closure.\<close>

record timer =
  timer_after :: int
  timer_cb :: closure

text \<open>
  The request of \<^verbatim>\<open>POST /api/schedule\<close> after \<^verbatim>\<open>upload.single('image')\<close>: \<^verbatim>\<open>req.file\<close> is
  only read through \<^verbatim>\<open>file.path\<close>, so \<open>req_file\<close> is that path, \<open>None\<close> when the request
  carried no file.
\<close>

record request =
  req_file :: "string option"
  groupId :: field
  scheduleTime :: field
  uiId :: field

datatype event = Emit string json

text \<open>How the promise of \<^verbatim>\<open>client.sendMessage\<close> settles.\<close>

datatype settled = Resolved | Rejected string

text \<open>
  The state of the process: the map, the upload directory (the set of paths that exist),
  the armed timers by handle, the next fresh handle, the callbacks suspended at
  \<^verbatim>\<open>await client.sendMessage\<close>, the messages the client delivered, the events emitted on the
  socket and the lines written by \<^verbatim>\<open>console.error\<close> (the \<^verbatim>\<open>console.log\<close> lines are not
  modelled).
\<close>

record state =
  scheduledTasks :: "field \<rightharpoonup> task"
  uploads :: "string set"
  timers :: "nat \<rightharpoonup> timer"
  next_timeout :: nat
  awaiting :: "closure list"
  delivered :: "(field \<times> string) list"
  emitted :: "event list"
  console_error :: "string list list"

definition init :: state where
  "init = \<lparr>scheduledTasks = Map.empty, uploads = {}, timers = Map.empty, next_timeout = 0,
     awaiting = [], delivered = [], emitted = [], console_error = []\<rparr>"

section \<open>The runtime the handlers call\<close>

text \<open>
  \<^verbatim>\<open>upload.single('image')\<close> runs before the handler and has already written the file of
  the request, if there is one, into the upload directory.
\<close>

definition upload_single :: "request \<Rightarrow> state \<Rightarrow> state" where
  "upload_single req s =
     (case req_file req of
        None \<Rightarrow> s
      | Some p \<Rightarrow> s\<lparr>uploads := insert p (uploads s)\<rparr>)"

text \<open>
  \<^verbatim>\<open>fs.unlink(path, () => {})\<close> and \<^verbatim>\<open>fs.unlinkSync(path)\<close>: the path no longer exists;
  the asynchronous form ignores its error when the path did not exist. The asynchronous
  form completes after the handler has returned; the model removes the path at the call.
\<close>

definition unlink :: "string \<Rightarrow> state \<Rightarrow> state" where
  "unlink p s = s\<lparr>uploads := uploads s - {p}\<rparr>"

text \<open>JavaScript's \<^verbatim>\<open>!x\<close> on a field: \<^verbatim>\<open>undefined\<close> and the empty string are falsy.\<close>

definition falsy :: "field \<Rightarrow> bool" where
  "falsy x = (x = None \<or> x = Some [])"

text \<open>
  \<^verbatim>\<open>new Date(scheduleTime).getTime() - Date.now()\<close>. The parser of \<^verbatim>\<open>Date\<close> belongs to the
  runtime and is a parameter \<open>getTime\<close>: it gives the milliseconds of a date string, or
  \<open>None\<close> for \<^verbatim>\<open>NaN\<close> (an invalid date). A number is \<open>int option\<close> with \<open>None\<close> for
  \<^verbatim>\<open>NaN\<close>; the subtraction of two time values has the sign of the exact difference.
\<close>

definition delay_of :: "(field \<Rightarrow> int option) \<Rightarrow> int \<Rightarrow> field \<Rightarrow> int option" where
  "delay_of getTime now t =
     (case getTime t of None \<Rightarrow> None | Some target \<Rightarrow> Some (target - now))"

text \<open>\<^verbatim>\<open>delay < 0\<close>: every comparison with \<^verbatim>\<open>NaN\<close> is false.\<close>

definition negative :: "int option \<Rightarrow> bool" where
  "negative d = (case d of None \<Rightarrow> False | Some x \<Rightarrow> x < 0)"

text \<open>
  Node's \<^verbatim>\<open>setTimeout(callback, delay)\<close>: a delay that is not between 1 and
  \<open>2\<^sup>3\<^sup>1 - 1\<close>, \<^verbatim>\<open>NaN\<close> included, is set to 1 millisecond, the shortest delay there is.
  The call returns a fresh handle.
\<close>

definition timeout_after :: "int option \<Rightarrow> int" where
  "timeout_after d =
     (case d of
        None \<Rightarrow> 1
      | Some x \<Rightarrow> if 1 \<le> x \<and> x \<le> 2147483647 then x else 1)"

definition setTimeout :: "closure \<Rightarrow> int option \<Rightarrow> state \<Rightarrow> nat \<times> state" where
  "setTimeout cb d s =
     (let h = next_timeout s
      in (h, s\<lparr>timers := (timers s)(h \<mapsto> \<lparr>timer_after = timeout_after d, timer_cb = cb\<rparr>),
               next_timeout := h + 1\<rparr>))"

text \<open>\<^verbatim>\<open>clearTimeout(h)\<close>: the timer is no longer armed; nothing happens if it was not.\<close>

definition clearTimeout :: "nat \<Rightarrow> state \<Rightarrow> state" where
  "clearTimeout h s = s\<lparr>timers := (timers s)(h := None)\<rparr>"

section \<open>POST /api/schedule\<close>

text \<open>
  \<^verbatim>\<open>server.js\<close>: only the file and the sign of the delay are checked.
  \<^verbatim>\<open>
  if (!file) return res.status(400).json({ error: 'No file' });
  const delay = new Date(scheduleTime).getTime() - Date.now();
  if (delay < 0) { fs.unlink(file.path, ()=>{}); return res.status(400).json({ error: 'Past time' }); }
  const timeout = setTimeout(async () => {...}, delay);
  scheduledTasks.set(uiId, { timeout, filePath: file.path });
  res.json({ status: 'Scheduled', id: uiId });
  \<close>
\<close>

definition api_schedule ::
  "(field \<Rightarrow> int option) \<Rightarrow> int \<Rightarrow> request \<Rightarrow> state \<Rightarrow> response \<times> state" where
  "api_schedule getTime now req s0 =
     (let s = upload_single req s0
      in case req_file req of
           None \<Rightarrow> (\<lparr>http_status = 400, http_body = [(''error'', Some ''No file'')]\<rparr>, s)
         | Some p \<Rightarrow>
             (let delay = delay_of getTime now (scheduleTime req)
              in if negative delay
                 then (\<lparr>http_status = 400, http_body = [(''error'', Some ''Past time'')]\<rparr>,
                       unlink p s)
                 else (let (h, s1) = setTimeout
                             \<lparr>cb_path = p, cb_groupId = groupId req, cb_uiId = uiId req\<rparr>
                             delay s
                       in (\<lparr>http_status = 200,
                            http_body = [(''status'', Some ''Scheduled''), (''id'', uiId req)]\<rparr>,
                           s1\<lparr>scheduledTasks := (scheduledTasks s1)
                                (uiId req \<mapsto> \<lparr>timeout = h, filePath = p\<rparr>)\<rparr>))))"

text \<open>
  The second file checks the four inputs for truthiness first, and returns without
  touching the uploaded file when one is missing:
  \<^verbatim>\<open>
  if (!file || !groupId || !scheduleTime || !uiId) {
      return res.status(400).json({ error: 'Missing required data' });
  }
  \<close>
  The rest is the same, with other error texts.
\<close>

definition api_schedule_part000 ::
  "(field \<Rightarrow> int option) \<Rightarrow> int \<Rightarrow> request \<Rightarrow> state \<Rightarrow> response \<times> state" where
  "api_schedule_part000 getTime now req s0 =
     (let s = upload_single req s0
      in case req_file req of
           None \<Rightarrow>
             (\<lparr>http_status = 400, http_body = [(''error'', Some ''Missing required data'')]\<rparr>, s)
         | Some p \<Rightarrow>
             if falsy (groupId req) \<or> falsy (scheduleTime req) \<or> falsy (uiId req)
             then (\<lparr>http_status = 400,
                    http_body = [(''error'', Some ''Missing required data'')]\<rparr>, s)
             else
               (let delay = delay_of getTime now (scheduleTime req)
                in if negative delay
                   then (\<lparr>http_status = 400,
                          http_body = [(''error'', Some ''Scheduled time is in the past.'')]\<rparr>,
                         unlink p s)
                   else (let (h, s1) = setTimeout
                               \<lparr>cb_path = p, cb_groupId = groupId req, cb_uiId = uiId req\<rparr>
                               delay s
                         in (\<lparr>http_status = 200,
                              http_body = [(''status'', Some ''Scheduled''), (''id'', uiId req)]\<rparr>,
                             s1\<lparr>scheduledTasks := (scheduledTasks s1)
                                  (uiId req \<mapsto> \<lparr>timeout = h, filePath = p\<rparr>)\<rparr>))))"

section \<open>The timer callback\<close>

text \<open>
  \<^verbatim>\<open>
  async () => {
      try {
          if (fs.existsSync(file.path)) {
              const media = MessageMedia.fromFilePath(file.path);
              await client.sendMessage(groupId, media);
              io.emit('message_sent', { id: uiId });
              fs.unlink(file.path, ()=>{});
          }
          scheduledTasks.delete(uiId);
      } catch (e) { console.error(e); }
  }
  \<close>
  The callback runs in two turns of the event loop. The first turn, \<open>timer_fires\<close>, starts
  when the armed timer \<open>h\<close> fires: the timer is spent, and either the file exists and the
  callback is suspended at \<^verbatim>\<open>await\<close> with the delivery under way, or the file does not
  exist and the entry of \<^verbatim>\<open>uiId\<close> is deleted. A handle that is not armed (cleared, or
  fired before) runs nothing. Other handlers run between the two turns. Reading a file
  that exists (\<^verbatim>\<open>MessageMedia.fromFilePath\<close>) is taken to succeed.
\<close>

definition timer_fires :: "nat \<Rightarrow> state \<Rightarrow> state" where
  "timer_fires h s =
     (case timers s h of
        None \<Rightarrow> s
      | Some t \<Rightarrow>
          (let cb = timer_cb t;
               s1 = s\<lparr>timers := (timers s)(h := None)\<rparr>
           in if cb_path cb \<in> uploads s1
              then s1\<lparr>awaiting := awaiting s1 @ [cb]\<rparr>
              else s1\<lparr>scheduledTasks := (scheduledTasks s1)(cb_uiId cb := None)\<rparr>))"

text \<open>
  The second turn, \<open>send_settles\<close>, runs when the promise of a suspended callback settles.
  Resolved: the message is delivered, the event is emitted, the file is unlinked and the
  entry is deleted. Rejected: control jumps to \<^verbatim>\<open>catch\<close>, which only writes the error; the
  statements after \<^verbatim>\<open>await\<close>, \<^verbatim>\<open>scheduledTasks.delete(uiId)\<close> included, do not run.
\<close>

definition send_settles :: "closure \<Rightarrow> settled \<Rightarrow> state \<Rightarrow> state" where
  "send_settles cb r s =
     (if cb \<notin> set (awaiting s) then s
      else
        (let s1 = s\<lparr>awaiting := remove1 cb (awaiting s)\<rparr>
         in case r of
              Resolved \<Rightarrow>
                (let s2 = s1\<lparr>delivered := delivered s1 @ [(cb_groupId cb, cb_path cb)]\<rparr>;
                     s3 = s2\<lparr>emitted := emitted s2 @
                                 [Emit ''message_sent'' [(''id'', cb_uiId cb)]]\<rparr>;
                     s4 = unlink (cb_path cb) s3
                 in s4\<lparr>scheduledTasks := (scheduledTasks s4)(cb_uiId cb := None)\<rparr>)
            | Rejected e \<Rightarrow> s1\<lparr>console_error := console_error s1 @ [[e]]\<rparr>))"

text \<open>
  The second file emits \<^verbatim>\<open>{ id: uiId, status: 'Sent' }\<close> and writes
  \<^verbatim>\<open>console.error(`Failed to send ${uiId}:`, error)\<close>; the control flow is the same.
\<close>

definition template :: "field \<Rightarrow> string" where
  "template x = (case x of None \<Rightarrow> ''undefined'' | Some v \<Rightarrow> v)"

definition send_settles_part000 :: "closure \<Rightarrow> settled \<Rightarrow> state \<Rightarrow> state" where
  "send_settles_part000 cb r s =
     (if cb \<notin> set (awaiting s) then s
      else
        (let s1 = s\<lparr>awaiting := remove1 cb (awaiting s)\<rparr>
         in case r of
              Resolved \<Rightarrow>
                (let s2 = s1\<lparr>delivered := delivered s1 @ [(cb_groupId cb, cb_path cb)]\<rparr>;
                     s3 = s2\<lparr>emitted := emitted s2 @
                                 [Emit ''message_sent''
                                    [(''id'', cb_uiId cb), (''status'', Some ''Sent'')]]\<rparr>;
                     s4 = unlink (cb_path cb) s3
                 in s4\<lparr>scheduledTasks := (scheduledTasks s4)(cb_uiId cb := None)\<rparr>)
            | Rejected e \<Rightarrow>
                s1\<lparr>console_error := console_error s1 @
                     [[''Failed to send '' @ template (cb_uiId cb) @ '':'', e]]\<rparr>))"

section \<open>POST /api/cancel\<close>

text \<open>
  \<^verbatim>\<open>
  if (scheduledTasks.has(id)) {
      const t = scheduledTasks.get(id);
      clearTimeout(t.timeout);
      if (fs.existsSync(t.filePath)) fs.unlinkSync(t.filePath);
      scheduledTasks.delete(id);
      res.json({ status: 'Cancelled' });
  } else {
      res.status(404).json({ error: 'Not found' });
  }
  \<close>
  The \<^verbatim>\<open>id\<close> of the JSON body is modelled as a field; a value that is neither a string nor
  \<^verbatim>\<open>undefined\<close> equals no key and takes the \<open>None\<close> branch of the lookup.
\<close>

definition api_cancel :: "field \<Rightarrow> state \<Rightarrow> response \<times> state" where
  "api_cancel ident s =
     (case scheduledTasks s ident of
        Some t \<Rightarrow>
          (let s1 = clearTimeout (timeout t) s;
               s2 = (if filePath t \<in> uploads s1 then unlink (filePath t) s1 else s1);
               s3 = s2\<lparr>scheduledTasks := (scheduledTasks s2)(ident := None)\<rparr>
           in (\<lparr>http_status = 200, http_body = [(''status'', Some ''Cancelled'')]\<rparr>, s3))
      | None \<Rightarrow> (\<lparr>http_status = 404, http_body = [(''error'', Some ''Not found'')]\<rparr>, s))"

definition api_cancel_part000 :: "field \<Rightarrow> state \<Rightarrow> response \<times> state" where
  "api_cancel_part000 ident s =
     (case scheduledTasks s ident of
        Some t \<Rightarrow>
          (let s1 = clearTimeout (timeout t) s;
               s2 = (if filePath t \<in> uploads s1 then unlink (filePath t) s1 else s1);
               s3 = s2\<lparr>scheduledTasks := (scheduledTasks s2)(ident := None)\<rparr>
           in (\<lparr>http_status = 200,
                http_body = [(''status'', Some ''Cancelled and Deleted'')]\<rparr>, s3))
      | None \<Rightarrow>
          (\<lparr>http_status = 404,
            http_body = [(''error'', Some ''Task ID not found or already sent'')]\<rparr>, s))"

section \<open>Timer handles\<close>

text \<open>
  \<^verbatim>\<open>setTimeout\<close> hands out a new handle at every call. In the model the handles in use, in
  the map and among the armed timers, are below the next one.
\<close>

definition handles_fresh :: "state \<Rightarrow> bool" where
  "handles_fresh s \<longleftrightarrow>
     (\<forall>k t. scheduledTasks s k = Some t \<longrightarrow> timeout t < next_timeout s)
   \<and> (\<forall>h tm. timers s h = Some tm \<longrightarrow> h < next_timeout s)"

section \<open>Sample requests and states\<close>

text \<open>
  The concrete data of the scenarios: a parser that knows two dates (1 January 2030,
  00:00 UTC, and one hour before it) and no other string, requests for the tasks
  \<^verbatim>\<open>ui-1\<close> and \<^verbatim>\<open>ui-2\<close>, and the states in which they are pending. Multer names an upload
  \<^verbatim>\<open>Date.now() + '-' + file.originalname\<close>.
\<close>

definition getTime_sample :: "field \<Rightarrow> int option" where
  "getTime_sample x =
     (if x = Some ''2030-01-01T00:00:00.000Z'' then Some 1893456000000
      else if x = Some ''2029-12-31T23:00:00.000Z'' then Some 1893452400000
      else None)"

definition photo :: string where
  "photo = ''1700000000000-photo.jpg''"

definition req_ui1 :: request where
  "req_ui1 = \<lparr>req_file = Some photo, groupId = Some ''grp@x'',
     scheduleTime = Some ''2030-01-01T00:00:00.000Z'', uiId = Some ''ui-1''\<rparr>"

definition cb_ui1 :: closure where
  "cb_ui1 = \<lparr>cb_path = photo, cb_groupId = Some ''grp@x'', cb_uiId = Some ''ui-1''\<rparr>"

text \<open>\<^verbatim>\<open>ui-1\<close> scheduled 50 ms ahead on a fresh process.\<close>

definition pending_ui1 :: state where
  "pending_ui1 = snd (api_schedule getTime_sample 1893455999950 req_ui1 init)"

definition pending_ui1_part000 :: state where
  "pending_ui1_part000 = snd (api_schedule_part000 getTime_sample 1893455999950 req_ui1 init)"

definition req_ui2 :: request where
  "req_ui2 = \<lparr>req_file = Some ''1700000000777-cat.png'', groupId = Some ''grp@x'',
     scheduleTime = Some ''2030-01-01T00:00:00.000Z'', uiId = Some ''ui-2''\<rparr>"

text \<open>\<^verbatim>\<open>ui-2\<close> scheduled 5000 ms ahead on a fresh process.\<close>

definition pending_ui2 :: state where
  "pending_ui2 = snd (api_schedule getTime_sample 1893455995000 req_ui2 init)"

text \<open>A second request that reuses the id \<^verbatim>\<open>ui-1\<close> with another file.\<close>

definition req_again :: request where
  "req_again = \<lparr>req_file = Some ''1700000000123-other.jpg'', groupId = Some ''grp@y'',
     scheduleTime = Some ''2030-01-01T00:00:00.000Z'', uiId = Some ''ui-1''\<rparr>"

text \<open>
  A request for another task, \<^verbatim>\<open>ui-3\<close>, whose upload has the name of the upload of
  \<^verbatim>\<open>ui-1\<close>: the same file name sent twice within one millisecond.
\<close>

definition req_twin :: request where
  "req_twin = \<lparr>req_file = Some photo, groupId = Some ''grp@y'',
     scheduleTime = Some ''2030-01-01T00:00:00.000Z'', uiId = Some ''ui-3''\<rparr>"

text \<open>\<^verbatim>\<open>ui-1\<close> and \<^verbatim>\<open>ui-3\<close> are scheduled, then \<^verbatim>\<open>ui-1\<close> is cancelled.\<close>

definition twin_left :: state where
  "twin_left =
     snd (api_cancel (Some ''ui-1'')
       (snd (api_schedule getTime_sample 1893455999950 req_twin pending_ui1)))"

text \<open>A request with a file and a time, and neither destination nor id.\<close>

definition req_bare :: request where
  "req_bare = \<lparr>req_file = Some photo, groupId = None,
     scheduleTime = Some ''2030-01-01T00:00:00.000Z'', uiId = None\<rparr>"

text \<open>A request with a file, a time and an id, and no destination.\<close>

definition req_no_group :: request where
  "req_no_group = \<lparr>req_file = Some photo, groupId = None,
     scheduleTime = Some ''2030-01-01T00:00:00.000Z'', uiId = Some ''ui-1''\<rparr>"

text \<open>Requests whose time is one hour old, and whose time is no date at all.\<close>

definition req_late :: request where
  "req_late = \<lparr>req_file = Some photo, groupId = Some ''grp@x'',
     scheduleTime = Some ''2029-12-31T23:00:00.000Z'', uiId = Some ''ui-1''\<rparr>"

definition req_nodate :: request where
  "req_nodate = \<lparr>req_file = Some photo, groupId = Some ''grp@x'',
     scheduleTime = Some ''tomorrow'', uiId = Some ''ui-1''\<rparr>"

definition req_nodate_no_group :: request where
  "req_nodate_no_group = \<lparr>req_file = Some photo, groupId = None,
     scheduleTime = Some ''tomorrow'', uiId = Some ''ui-1''\<rparr>"

section \<open>Facts about the sample states\<close>

lemma pending_ui1_eq:
  "pending_ui1 =
     \<lparr>scheduledTasks = [Some ''ui-1'' \<mapsto> \<lparr>timeout = 0, filePath = photo\<rparr>],
      uploads = {photo},
      timers = [0 \<mapsto> \<lparr>timer_after = 50, timer_cb = cb_ui1\<rparr>],
      next_timeout = 1, awaiting = [], delivered = [], emitted = [], console_error = []\<rparr>"
  by (simp add: pending_ui1_def api_schedule_def upload_single_def req_ui1_def init_def
      getTime_sample_def delay_of_def negative_def setTimeout_def timeout_after_def cb_ui1_def)

lemma pending_ui1_part000_eq: "pending_ui1_part000 = pending_ui1"
  by (simp add: pending_ui1_part000_def pending_ui1_eq api_schedule_part000_def
      upload_single_def req_ui1_def init_def falsy_def getTime_sample_def delay_of_def
      negative_def setTimeout_def timeout_after_def cb_ui1_def)

lemma pending_ui2_eq:
  "pending_ui2 =
     \<lparr>scheduledTasks = [Some ''ui-2'' \<mapsto> \<lparr>timeout = 0, filePath = ''1700000000777-cat.png''\<rparr>],
      uploads = {''1700000000777-cat.png''},
      timers = [0 \<mapsto> \<lparr>timer_after = 5000,
        timer_cb = \<lparr>cb_path = ''1700000000777-cat.png'', cb_groupId = Some ''grp@x'',
                    cb_uiId = Some ''ui-2''\<rparr>\<rparr>],
      next_timeout = 1, awaiting = [], delivered = [], emitted = [], console_error = []\<rparr>"
  by (simp add: pending_ui2_def api_schedule_def upload_single_def req_ui2_def init_def
      getTime_sample_def delay_of_def negative_def setTimeout_def timeout_after_def)

section \<open>Handles stay fresh\<close>

text \<open>
  The state of a new process has fresh handles, and every handler and every turn of the
  callback keeps them fresh; so in every state the process reaches, the handle of an
  entry of the map is below the handle the next \<^verbatim>\<open>setTimeout\<close> returns.
\<close>

lemma handles_fresh_init: "handles_fresh init"
  by (simp add: handles_fresh_def init_def)

lemma handles_fresh_api_schedule:
  "handles_fresh s \<Longrightarrow> handles_fresh (snd (api_schedule getTime now req s))"
  by (auto simp add: handles_fresh_def api_schedule_def upload_single_def unlink_def
      setTimeout_def Let_def less_Suc_eq split: option.splits if_splits)

lemma handles_fresh_api_schedule_part000:
  "handles_fresh s \<Longrightarrow> handles_fresh (snd (api_schedule_part000 getTime now req s))"
  by (auto simp add: handles_fresh_def api_schedule_part000_def upload_single_def unlink_def
      setTimeout_def Let_def less_Suc_eq split: option.splits if_splits)

lemma handles_fresh_api_cancel:
  "handles_fresh s \<Longrightarrow> handles_fresh (snd (api_cancel k s))"
  by (auto simp add: handles_fresh_def api_cancel_def clearTimeout_def unlink_def Let_def
      split: option.splits if_splits)

lemma handles_fresh_api_cancel_part000:
  "handles_fresh s \<Longrightarrow> handles_fresh (snd (api_cancel_part000 k s))"
  by (auto simp add: handles_fresh_def api_cancel_part000_def clearTimeout_def unlink_def
      Let_def split: option.splits if_splits)

lemma handles_fresh_timer_fires:
  "handles_fresh s \<Longrightarrow> handles_fresh (timer_fires h s)"
  by (auto simp add: handles_fresh_def timer_fires_def Let_def split: option.splits if_splits)

lemma handles_fresh_send_settles:
  "handles_fresh s \<Longrightarrow> handles_fresh (send_settles cb r s)"
  by (auto simp add: handles_fresh_def send_settles_def unlink_def Let_def
      split: settled.splits if_splits)

lemma handles_fresh_send_settles_part000:
  "handles_fresh s \<Longrightarrow> handles_fresh (send_settles_part000 cb r s)"
  by (auto simp add: handles_fresh_def send_settles_part000_def unlink_def Let_def
      split: settled.splits if_splits)

lemma handles_fresh_entry:
  "handles_fresh s \<Longrightarrow> scheduledTasks s k = Some t \<Longrightarrow> timeout t < next_timeout s"
  by (simp add: handles_fresh_def)

section \<open>Cancelling twice\<close>



section \<open>What the handlers and the callback do, step by step\<close>

lemma api_cancel_Some:
  "scheduledTasks s k = Some t \<Longrightarrow>
   api_cancel k s =
     (\<lparr>http_status = 200, http_body = [(''status'', Some ''Cancelled'')]\<rparr>,
      s\<lparr>timers := (timers s)(timeout t := None), uploads := uploads s - {filePath t},
        scheduledTasks := (scheduledTasks s)(k := None)\<rparr>)"
  by (simp add: api_cancel_def clearTimeout_def unlink_def Let_def)

lemma api_cancel_part000_Some:
  "scheduledTasks s k = Some t \<Longrightarrow>
   api_cancel_part000 k s =
     (\<lparr>http_status = 200, http_body = [(''status'', Some ''Cancelled and Deleted'')]\<rparr>,
      s\<lparr>timers := (timers s)(timeout t := None), uploads := uploads s - {filePath t},
        scheduledTasks := (scheduledTasks s)(k := None)\<rparr>)"
  by (simp add: api_cancel_part000_def clearTimeout_def unlink_def Let_def)

lemma api_cancel_None:
  "scheduledTasks s k = None \<Longrightarrow>
   api_cancel k s = (\<lparr>http_status = 404, http_body = [(''error'', Some ''Not found'')]\<rparr>, s)"
  by (simp add: api_cancel_def)

lemma api_cancel_part000_None:
  "scheduledTasks s k = None \<Longrightarrow>
   api_cancel_part000 k s =
     (\<lparr>http_status = 404,
       http_body = [(''error'', Some ''Task ID not found or already sent'')]\<rparr>, s)"
  by (simp add: api_cancel_part000_def)

lemma timer_fires_unarmed: "timers s h = None \<Longrightarrow> timer_fires h s = s"
  by (simp add: timer_fires_def)

lemma timer_fires_sends:
  "timers s h = Some tm \<Longrightarrow> cb_path (timer_cb tm) \<in> uploads s \<Longrightarrow>
   timer_fires h s = s\<lparr>timers := (timers s)(h := None), awaiting := awaiting s @ [timer_cb tm]\<rparr>"
  by (simp add: timer_fires_def Let_def)

lemma timer_fires_no_file:
  "timers s h = Some tm \<Longrightarrow> cb_path (timer_cb tm) \<notin> uploads s \<Longrightarrow>
   timer_fires h s =
     s\<lparr>timers := (timers s)(h := None),
       scheduledTasks := (scheduledTasks s)(cb_uiId (timer_cb tm) := None)\<rparr>"
  by (simp add: timer_fires_def Let_def)

lemma send_settles_Resolved:
  "cb \<in> set (awaiting s) \<Longrightarrow>
   send_settles cb Resolved s =
     s\<lparr>awaiting := remove1 cb (awaiting s),
       delivered := delivered s @ [(cb_groupId cb, cb_path cb)],
       emitted := emitted s @ [Emit ''message_sent'' [(''id'', cb_uiId cb)]],
       uploads := uploads s - {cb_path cb},
       scheduledTasks := (scheduledTasks s)(cb_uiId cb := None)\<rparr>"
  by (simp add: send_settles_def unlink_def Let_def)

lemma send_settles_part000_Resolved:
  "cb \<in> set (awaiting s) \<Longrightarrow>
   send_settles_part000 cb Resolved s =
     s\<lparr>awaiting := remove1 cb (awaiting s),
       delivered := delivered s @ [(cb_groupId cb, cb_path cb)],
       emitted := emitted s @
         [Emit ''message_sent'' [(''id'', cb_uiId cb), (''status'', Some ''Sent'')]],
       uploads := uploads s - {cb_path cb},
       scheduledTasks := (scheduledTasks s)(cb_uiId cb := None)\<rparr>"
  by (simp add: send_settles_part000_def unlink_def Let_def)

lemma send_settles_Rejected:
  "cb \<in> set (awaiting s) \<Longrightarrow>
   send_settles cb (Rejected e) s =
     s\<lparr>awaiting := remove1 cb (awaiting s), console_error := console_error s @ [[e]]\<rparr>"
  by (simp add: send_settles_def Let_def)

lemma send_settles_part000_Rejected:
  "cb \<in> set (awaiting s) \<Longrightarrow>
   send_settles_part000 cb (Rejected e) s =
     s\<lparr>awaiting := remove1 cb (awaiting s),
       console_error := console_error s @
         [[''Failed to send '' @ template (cb_uiId cb) @ '':'', e]]\<rparr>"
  by (simp add: send_settles_part000_def Let_def)

section \<open>Cancel\<close>

text \<open>
  Claim C5, as amended. Cancel on an id that is in the map disarms the timer of the entry,
  deletes the file of the entry, removes the entry and answers 200, with the body
  \<^verbatim>\<open>{status: "Cancelled"}\<close> in \<^verbatim>\<open>server.js\<close> and \<^verbatim>\<open>{status: "Cancelled and Deleted"}\<close> in the
  second file. Cancel on an id that is not in the map answers 404 and leaves the state
  as it is.
\<close>

theorem cancel_present_absent:
  "(scheduledTasks s k = Some t \<longrightarrow>
      fst (api_cancel k s) =
        \<lparr>http_status = 200, http_body = [(''status'', Some ''Cancelled'')]\<rparr>
    \<and> timers (snd (api_cancel k s)) (timeout t) = None
    \<and> filePath t \<notin> uploads (snd (api_cancel k s))
    \<and> scheduledTasks (snd (api_cancel k s)) k = None
    \<and> fst (api_cancel_part000 k s) =
        \<lparr>http_status = 200, http_body = [(''status'', Some ''Cancelled and Deleted'')]\<rparr>
    \<and> timers (snd (api_cancel_part000 k s)) (timeout t) = None
    \<and> filePath t \<notin> uploads (snd (api_cancel_part000 k s))
    \<and> scheduledTasks (snd (api_cancel_part000 k s)) k = None)
   \<and> (scheduledTasks s k = None \<longrightarrow>
      api_cancel k s =
        (\<lparr>http_status = 404, http_body = [(''error'', Some ''Not found'')]\<rparr>, s)
    \<and> api_cancel_part000 k s =
        (\<lparr>http_status = 404,
          http_body = [(''error'', Some ''Task ID not found or already sent'')]\<rparr>, s))"
  by (simp add: api_cancel_Some api_cancel_part000_Some api_cancel_None
      api_cancel_part000_None)

theorem cancel_present_absent_witness:
  "scheduledTasks pending_ui2 (Some ''ui-2'') =
     Some \<lparr>timeout = 0, filePath = ''1700000000777-cat.png''\<rparr>
   \<and> fst (api_cancel (Some ''ui-2'') pending_ui2) =
       \<lparr>http_status = 200, http_body = [(''status'', Some ''Cancelled'')]\<rparr>
   \<and> timers (snd (api_cancel (Some ''ui-2'') pending_ui2)) 0 = None
   \<and> ''1700000000777-cat.png'' \<notin> uploads (snd (api_cancel (Some ''ui-2'') pending_ui2))
   \<and> scheduledTasks (snd (api_cancel (Some ''ui-2'') pending_ui2)) (Some ''ui-2'') = None
   \<and> scheduledTasks pending_ui2 (Some ''ui-9'') = None
   \<and> api_cancel (Some ''ui-9'') pending_ui2 =
       (\<lparr>http_status = 404, http_body = [(''error'', Some ''Not found'')]\<rparr>, pending_ui2)"
proof -
  have present: "scheduledTasks pending_ui2 (Some ''ui-2'') =
      Some \<lparr>timeout = 0, filePath = ''1700000000777-cat.png''\<rparr>"
    by (simp add: pending_ui2_eq)
  have absent: "scheduledTasks pending_ui2 (Some ''ui-9'') = None"
    by (simp add: pending_ui2_eq)
  from cancel_present_absent
         [of pending_ui2 "Some ''ui-2''" "\<lparr>timeout = 0, filePath = ''1700000000777-cat.png''\<rparr>"]
       cancel_present_absent [of pending_ui2 "Some ''ui-9''"] present absent
  show ?thesis
    by simp
qed

text \<open>
  The claim as written gives the body \<^verbatim>\<open>{status: "Cancelled"}\<close> to every successful cancel;
  the second file answers with another text.
\<close>

theorem cancel_body_counterexample:
  "scheduledTasks pending_ui1_part000 (Some ''ui-1'') = Some \<lparr>timeout = 0, filePath = photo\<rparr>
   \<and> fst (api_cancel_part000 (Some ''ui-1'') pending_ui1_part000) =
       \<lparr>http_status = 200, http_body = [(''status'', Some ''Cancelled and Deleted'')]\<rparr>
   \<and> http_body (fst (api_cancel_part000 (Some ''ui-1'') pending_ui1_part000)) \<noteq>
       [(''status'', Some ''Cancelled'')]"
  by (simp add: pending_ui1_part000_eq pending_ui1_eq api_cancel_part000_Some)

section \<open>Cancel against the timer\<close>

text \<open>
  Claim C1, as amended. Take a task that is in the map with its timer armed and its file
  on disk. Cancel handled before the timer fires gives the cancellation effects only: it
  answers Cancelled, the file and the entry are gone, the cancel itself delivers and
  emits nothing, and the timer of the entry, now disarmed, runs nothing. Cancel handled
  after the callback has finished a successful delivery gives the delivery effects only:
  the message is delivered, the event is emitted, the file and the entry are gone, and
  cancel answers 404 and changes nothing. Cancel handled between the two turns of the
  callback, while it waits for \<^verbatim>\<open>client.sendMessage\<close>, still finds the entry (it is
  deleted after the \<^verbatim>\<open>await\<close>): it answers Cancelled and deletes the file and the entry,
  and the delivery, when it resolves, is made and announced all the same. The second file
  behaves the same way with its own texts.
\<close>

theorem cancel_fire_orders:
  assumes present: "scheduledTasks s k = Some t"
    and armed: "timers s (timeout t) = Some tm"
    and captured: "timer_cb tm = \<lparr>cb_path = filePath t, cb_groupId = g, cb_uiId = k\<rparr>"
    and on_disk: "filePath t \<in> uploads s"
  shows
    "fst (api_cancel k s) = \<lparr>http_status = 200, http_body = [(''status'', Some ''Cancelled'')]\<rparr>
   \<and> filePath t \<notin> uploads (snd (api_cancel k s))
   \<and> scheduledTasks (snd (api_cancel k s)) k = None
   \<and> delivered (snd (api_cancel k s)) = delivered s
   \<and> emitted (snd (api_cancel k s)) = emitted s
   \<and> timer_fires (timeout t) (snd (api_cancel k s)) = snd (api_cancel k s)
   \<and> delivered (send_settles (timer_cb tm) Resolved (timer_fires (timeout t) s)) =
       delivered s @ [(g, filePath t)]
   \<and> emitted (send_settles (timer_cb tm) Resolved (timer_fires (timeout t) s)) =
       emitted s @ [Emit ''message_sent'' [(''id'', k)]]
   \<and> filePath t \<notin> uploads (send_settles (timer_cb tm) Resolved (timer_fires (timeout t) s))
   \<and> api_cancel k (send_settles (timer_cb tm) Resolved (timer_fires (timeout t) s)) =
       (\<lparr>http_status = 404, http_body = [(''error'', Some ''Not found'')]\<rparr>,
        send_settles (timer_cb tm) Resolved (timer_fires (timeout t) s))
   \<and> fst (api_cancel k (timer_fires (timeout t) s)) =
       \<lparr>http_status = 200, http_body = [(''status'', Some ''Cancelled'')]\<rparr>
   \<and> filePath t \<notin> uploads (snd (api_cancel k (timer_fires (timeout t) s)))
   \<and> scheduledTasks (snd (api_cancel k (timer_fires (timeout t) s))) k = None
   \<and> delivered (send_settles (timer_cb tm) Resolved
         (snd (api_cancel k (timer_fires (timeout t) s)))) = delivered s @ [(g, filePath t)]
   \<and> emitted (send_settles (timer_cb tm) Resolved
         (snd (api_cancel k (timer_fires (timeout t) s)))) =
       emitted s @ [Emit ''message_sent'' [(''id'', k)]]
   \<and> fst (api_cancel_part000 k s) =
       \<lparr>http_status = 200, http_body = [(''status'', Some ''Cancelled and Deleted'')]\<rparr>
   \<and> filePath t \<notin> uploads (snd (api_cancel_part000 k s))
   \<and> scheduledTasks (snd (api_cancel_part000 k s)) k = None
   \<and> delivered (snd (api_cancel_part000 k s)) = delivered s
   \<and> emitted (snd (api_cancel_part000 k s)) = emitted s
   \<and> timer_fires (timeout t) (snd (api_cancel_part000 k s)) = snd (api_cancel_part000 k s)
   \<and> delivered (send_settles_part000 (timer_cb tm) Resolved (timer_fires (timeout t) s)) =
       delivered s @ [(g, filePath t)]
   \<and> emitted (send_settles_part000 (timer_cb tm) Resolved (timer_fires (timeout t) s)) =
       emitted s @ [Emit ''message_sent'' [(''id'', k), (''status'', Some ''Sent'')]]
   \<and> filePath t \<notin>
       uploads (send_settles_part000 (timer_cb tm) Resolved (timer_fires (timeout t) s))
   \<and> api_cancel_part000 k
         (send_settles_part000 (timer_cb tm) Resolved (timer_fires (timeout t) s)) =
       (\<lparr>http_status = 404,
         http_body = [(''error'', Some ''Task ID not found or already sent'')]\<rparr>,
        send_settles_part000 (timer_cb tm) Resolved (timer_fires (timeout t) s))
   \<and> fst (api_cancel_part000 k (timer_fires (timeout t) s)) =
       \<lparr>http_status = 200, http_body = [(''status'', Some ''Cancelled and Deleted'')]\<rparr>
   \<and> filePath t \<notin> uploads (snd (api_cancel_part000 k (timer_fires (timeout t) s)))
   \<and> scheduledTasks (snd (api_cancel_part000 k (timer_fires (timeout t) s))) k = None
   \<and> delivered (send_settles_part000 (timer_cb tm) Resolved
         (snd (api_cancel_part000 k (timer_fires (timeout t) s)))) =
       delivered s @ [(g, filePath t)]
   \<and> emitted (send_settles_part000 (timer_cb tm) Resolved
         (snd (api_cancel_part000 k (timer_fires (timeout t) s)))) =
       emitted s @ [Emit ''message_sent'' [(''id'', k), (''status'', Some ''Sent'')]]"
proof -
  have readable: "cb_path (timer_cb tm) \<in> uploads s"
    using captured on_disk by simp
  have fired: "timer_fires (timeout t) s =
      s\<lparr>timers := (timers s)(timeout t := None), awaiting := awaiting s @ [timer_cb tm]\<rparr>"
    using armed readable by (rule timer_fires_sends)
  have waiting: "timer_cb tm \<in> set (awaiting (timer_fires (timeout t) s))"
    by (simp add: fired)
  have gone: "scheduledTasks (send_settles (timer_cb tm) Resolved (timer_fires (timeout t) s)) k
      = None"
    unfolding send_settles_Resolved [OF waiting] by (simp add: captured)
  have gone': "scheduledTasks
      (send_settles_part000 (timer_cb tm) Resolved (timer_fires (timeout t) s)) k = None"
    unfolding send_settles_part000_Resolved [OF waiting] by (simp add: captured)
  have first: "fst (api_cancel k s) =
        \<lparr>http_status = 200, http_body = [(''status'', Some ''Cancelled'')]\<rparr>
      \<and> filePath t \<notin> uploads (snd (api_cancel k s))
      \<and> scheduledTasks (snd (api_cancel k s)) k = None
      \<and> delivered (snd (api_cancel k s)) = delivered s
      \<and> emitted (snd (api_cancel k s)) = emitted s
      \<and> timer_fires (timeout t) (snd (api_cancel k s)) = snd (api_cancel k s)"
    by (simp add: api_cancel_Some [OF present] timer_fires_unarmed)
  have first': "fst (api_cancel_part000 k s) =
        \<lparr>http_status = 200, http_body = [(''status'', Some ''Cancelled and Deleted'')]\<rparr>
      \<and> filePath t \<notin> uploads (snd (api_cancel_part000 k s))
      \<and> scheduledTasks (snd (api_cancel_part000 k s)) k = None
      \<and> delivered (snd (api_cancel_part000 k s)) = delivered s
      \<and> emitted (snd (api_cancel_part000 k s)) = emitted s
      \<and> timer_fires (timeout t) (snd (api_cancel_part000 k s)) = snd (api_cancel_part000 k s)"
    by (simp add: api_cancel_part000_Some [OF present] timer_fires_unarmed)
  have after: "delivered (send_settles (timer_cb tm) Resolved (timer_fires (timeout t) s)) =
        delivered s @ [(g, filePath t)]
      \<and> emitted (send_settles (timer_cb tm) Resolved (timer_fires (timeout t) s)) =
        emitted s @ [Emit ''message_sent'' [(''id'', k)]]
      \<and> filePath t \<notin> uploads (send_settles (timer_cb tm) Resolved (timer_fires (timeout t) s))"
    unfolding send_settles_Resolved [OF waiting] by (simp add: captured fired)
  have after': "delivered (send_settles_part000 (timer_cb tm) Resolved (timer_fires (timeout t) s)) =
        delivered s @ [(g, filePath t)]
      \<and> emitted (send_settles_part000 (timer_cb tm) Resolved (timer_fires (timeout t) s)) =
        emitted s @ [Emit ''message_sent'' [(''id'', k), (''status'', Some ''Sent'')]]
      \<and> filePath t \<notin>
        uploads (send_settles_part000 (timer_cb tm) Resolved (timer_fires (timeout t) s))"
    unfolding send_settles_part000_Resolved [OF waiting] by (simp add: captured fired)
  have between: "fst (api_cancel k (timer_fires (timeout t) s)) =
        \<lparr>http_status = 200, http_body = [(''status'', Some ''Cancelled'')]\<rparr>
      \<and> delivered (send_settles (timer_cb tm) Resolved
          (snd (api_cancel k (timer_fires (timeout t) s)))) = delivered s @ [(g, filePath t)]
      \<and> emitted (send_settles (timer_cb tm) Resolved
          (snd (api_cancel k (timer_fires (timeout t) s)))) =
        emitted s @ [Emit ''message_sent'' [(''id'', k)]]"
    using present armed on_disk
    by (simp add: api_cancel_def send_settles_def timer_fires_def clearTimeout_def
        unlink_def Let_def captured)
  have between': "fst (api_cancel_part000 k (timer_fires (timeout t) s)) =
        \<lparr>http_status = 200, http_body = [(''status'', Some ''Cancelled and Deleted'')]\<rparr>
      \<and> delivered (send_settles_part000 (timer_cb tm) Resolved
          (snd (api_cancel_part000 k (timer_fires (timeout t) s)))) =
        delivered s @ [(g, filePath t)]
      \<and> emitted (send_settles_part000 (timer_cb tm) Resolved
          (snd (api_cancel_part000 k (timer_fires (timeout t) s)))) =
        emitted s @ [Emit ''message_sent'' [(''id'', k), (''status'', Some ''Sent'')]]"
    using present armed on_disk
    by (simp add: api_cancel_part000_def send_settles_part000_def timer_fires_def
        clearTimeout_def unlink_def Let_def captured)
  have still: "scheduledTasks (timer_fires (timeout t) s) k = Some t"
    by (simp add: fired present)
  have released: "filePath t \<notin> uploads (snd (api_cancel k (timer_fires (timeout t) s)))
      \<and> scheduledTasks (snd (api_cancel k (timer_fires (timeout t) s))) k = None"
    by (simp add: api_cancel_Some [OF still])
  have released': "filePath t \<notin>
        uploads (snd (api_cancel_part000 k (timer_fires (timeout t) s)))
      \<and> scheduledTasks (snd (api_cancel_part000 k (timer_fires (timeout t) s))) k = None"
    by (simp add: api_cancel_part000_Some [OF still])
  from first first' after after' between between' released released'
    api_cancel_None [OF gone] api_cancel_part000_None [OF gone']
  show ?thesis
    by simp
qed


theorem cancel_fire_orders_witness:
  "scheduledTasks pending_ui1 (Some ''ui-1'') = Some \<lparr>timeout = 0, filePath = photo\<rparr>
   \<and> timers pending_ui1 0 = Some \<lparr>timer_after = 50, timer_cb = cb_ui1\<rparr>
   \<and> cb_ui1 = \<lparr>cb_path = photo, cb_groupId = Some ''grp@x'', cb_uiId = Some ''ui-1''\<rparr>
   \<and> photo \<in> uploads pending_ui1
   \<and> fst (api_cancel (Some ''ui-1'') pending_ui1) =
       \<lparr>http_status = 200, http_body = [(''status'', Some ''Cancelled'')]\<rparr>
   \<and> timer_fires 0 (snd (api_cancel (Some ''ui-1'') pending_ui1)) =
       snd (api_cancel (Some ''ui-1'') pending_ui1)
   \<and> delivered (snd (api_cancel (Some ''ui-1'') pending_ui1)) = []
   \<and> delivered (send_settles cb_ui1 Resolved (timer_fires 0 pending_ui1)) =
       [(Some ''grp@x'', photo)]
   \<and> fst (api_cancel (Some ''ui-1'') (send_settles cb_ui1 Resolved (timer_fires 0 pending_ui1))) =
       \<lparr>http_status = 404, http_body = [(''error'', Some ''Not found'')]\<rparr>
   \<and> fst (api_cancel (Some ''ui-1'') (timer_fires 0 pending_ui1)) =
       \<lparr>http_status = 200, http_body = [(''status'', Some ''Cancelled'')]\<rparr>
   \<and> photo \<notin> uploads (snd (api_cancel (Some ''ui-1'') (timer_fires 0 pending_ui1)))
   \<and> scheduledTasks (snd (api_cancel (Some ''ui-1'') (timer_fires 0 pending_ui1)))
       (Some ''ui-1'') = None"
proof -
  have present: "scheduledTasks pending_ui1 (Some ''ui-1'') =
      Some \<lparr>timeout = 0, filePath = photo\<rparr>"
    by (simp add: pending_ui1_eq)
  have armed: "timers pending_ui1 (timeout \<lparr>timeout = 0, filePath = photo\<rparr>) =
      Some \<lparr>timer_after = 50, timer_cb = cb_ui1\<rparr>"
    by (simp add: pending_ui1_eq)
  have captured: "timer_cb \<lparr>timer_after = 50, timer_cb = cb_ui1\<rparr> =
      \<lparr>cb_path = filePath \<lparr>timeout = 0, filePath = photo\<rparr>, cb_groupId = Some ''grp@x'',
       cb_uiId = Some ''ui-1''\<rparr>"
    by (simp add: cb_ui1_def)
  have on_disk: "filePath \<lparr>timeout = 0, filePath = photo\<rparr> \<in> uploads pending_ui1"
    by (simp add: pending_ui1_eq)
  have empty: "delivered pending_ui1 = []"
    by (simp add: pending_ui1_eq)
  from cancel_fire_orders [OF present armed captured on_disk] present armed captured on_disk
  show ?thesis
    by (simp add: empty)
qed

text \<open>
  The claim as written fails in the third order. The timer of \<^verbatim>\<open>ui-1\<close> has fired and its
  callback waits for \<^verbatim>\<open>client.sendMessage\<close>; cancel then answers Cancelled, not 404, and
  deletes the file; the delivery resolves and the message is delivered and announced.
  Both sets of effects have occurred.
\<close>

theorem cancel_during_send_counterexample:
  "awaiting (timer_fires 0 pending_ui1) = [cb_ui1]
   \<and> fst (api_cancel (Some ''ui-1'') (timer_fires 0 pending_ui1)) =
       \<lparr>http_status = 200, http_body = [(''status'', Some ''Cancelled'')]\<rparr>
   \<and> photo \<notin> uploads (snd (api_cancel (Some ''ui-1'') (timer_fires 0 pending_ui1)))
   \<and> delivered (send_settles cb_ui1 Resolved
        (snd (api_cancel (Some ''ui-1'') (timer_fires 0 pending_ui1)))) =
       [(Some ''grp@x'', photo)]
   \<and> emitted (send_settles cb_ui1 Resolved
        (snd (api_cancel (Some ''ui-1'') (timer_fires 0 pending_ui1)))) =
       [Emit ''message_sent'' [(''id'', Some ''ui-1'')]]"
  by (simp add: pending_ui1_eq timer_fires_def api_cancel_def send_settles_def
      clearTimeout_def unlink_def Let_def cb_ui1_def)

section \<open>A delivery that fails\<close>

text \<open>
  Claim C3 says that a task whose delivery fails is still removed from the map. In the
  code the rejection of \<^verbatim>\<open>client.sendMessage\<close> jumps to \<^verbatim>\<open>catch\<close>, past
  \<^verbatim>\<open>scheduledTasks.delete(uiId)\<close>: the error is written, and the entry of \<^verbatim>\<open>ui-1\<close>, whose
  timer is spent, stays in the map, with its file on disk. Both files do the same.
\<close>

theorem failed_send_keeps_entry:
  "console_error (send_settles cb_ui1 (Rejected ''Error: Session closed'')
       (timer_fires 0 pending_ui1)) = [[''Error: Session closed'']]
   \<and> timers (send_settles cb_ui1 (Rejected ''Error: Session closed'')
       (timer_fires 0 pending_ui1)) 0 = None
   \<and> awaiting (send_settles cb_ui1 (Rejected ''Error: Session closed'')
       (timer_fires 0 pending_ui1)) = []
   \<and> scheduledTasks (send_settles cb_ui1 (Rejected ''Error: Session closed'')
       (timer_fires 0 pending_ui1)) (Some ''ui-1'') = Some \<lparr>timeout = 0, filePath = photo\<rparr>
   \<and> photo \<in> uploads (send_settles cb_ui1 (Rejected ''Error: Session closed'')
       (timer_fires 0 pending_ui1))
   \<and> console_error (send_settles_part000 cb_ui1 (Rejected ''Error: Session closed'')
       (timer_fires 0 pending_ui1_part000)) =
       [[''Failed to send ui-1:'', ''Error: Session closed'']]
   \<and> scheduledTasks (send_settles_part000 cb_ui1 (Rejected ''Error: Session closed'')
       (timer_fires 0 pending_ui1_part000)) (Some ''ui-1'') =
       Some \<lparr>timeout = 0, filePath = photo\<rparr>"
  by (simp add: pending_ui1_part000_eq pending_ui1_eq timer_fires_def send_settles_def
      send_settles_part000_def Let_def cb_ui1_def template_def)

section \<open>The timer fires\<close>

text \<open>
  Claim C7, as amended. The callback does not look at the map; its guard is the file.
  When an armed timer fires and the file of its closure exists, the delivery of that file
  to the \<^verbatim>\<open>groupId\<close> of the closure is started, and when it resolves the message is
  delivered, \<^verbatim>\<open>message_sent\<close> is emitted with the \<^verbatim>\<open>uiId\<close> of the closure, the file is
  deleted and the entry of that \<^verbatim>\<open>uiId\<close> is removed from the map.
\<close>

theorem timer_delivers:
  assumes armed: "timers s h = Some tm"
    and on_disk: "cb_path (timer_cb tm) \<in> uploads s"
  shows
    "awaiting (timer_fires h s) = awaiting s @ [timer_cb tm]
   \<and> delivered (send_settles (timer_cb tm) Resolved (timer_fires h s)) =
       delivered s @ [(cb_groupId (timer_cb tm), cb_path (timer_cb tm))]
   \<and> emitted (send_settles (timer_cb tm) Resolved (timer_fires h s)) =
       emitted s @ [Emit ''message_sent'' [(''id'', cb_uiId (timer_cb tm))]]
   \<and> cb_path (timer_cb tm) \<notin> uploads (send_settles (timer_cb tm) Resolved (timer_fires h s))
   \<and> scheduledTasks (send_settles (timer_cb tm) Resolved (timer_fires h s))
       (cb_uiId (timer_cb tm)) = None
   \<and> delivered (send_settles_part000 (timer_cb tm) Resolved (timer_fires h s)) =
       delivered s @ [(cb_groupId (timer_cb tm), cb_path (timer_cb tm))]
   \<and> emitted (send_settles_part000 (timer_cb tm) Resolved (timer_fires h s)) =
       emitted s @
       [Emit ''message_sent'' [(''id'', cb_uiId (timer_cb tm)), (''status'', Some ''Sent'')]]
   \<and> cb_path (timer_cb tm) \<notin>
       uploads (send_settles_part000 (timer_cb tm) Resolved (timer_fires h s))
   \<and> scheduledTasks (send_settles_part000 (timer_cb tm) Resolved (timer_fires h s))
       (cb_uiId (timer_cb tm)) = None"
proof -
  have fired: "timer_fires h s =
      s\<lparr>timers := (timers s)(h := None), awaiting := awaiting s @ [timer_cb tm]\<rparr>"
    using armed on_disk by (rule timer_fires_sends)
  have waiting: "timer_cb tm \<in> set (awaiting (timer_fires h s))"
    by (simp add: fired)
  show ?thesis
    unfolding send_settles_Resolved [OF waiting] send_settles_part000_Resolved [OF waiting]
    by (simp add: fired)
qed

theorem timer_delivers_witness:
  "timers pending_ui1 0 = Some \<lparr>timer_after = 50, timer_cb = cb_ui1\<rparr>
   \<and> photo \<in> uploads pending_ui1
   \<and> awaiting (timer_fires 0 pending_ui1) = [cb_ui1]
   \<and> delivered (send_settles cb_ui1 Resolved (timer_fires 0 pending_ui1)) =
       [(Some ''grp@x'', photo)]
   \<and> emitted (send_settles cb_ui1 Resolved (timer_fires 0 pending_ui1)) =
       [Emit ''message_sent'' [(''id'', Some ''ui-1'')]]
   \<and> photo \<notin> uploads (send_settles cb_ui1 Resolved (timer_fires 0 pending_ui1))
   \<and> scheduledTasks (send_settles cb_ui1 Resolved (timer_fires 0 pending_ui1)) (Some ''ui-1'') =
       None"
proof -
  have armed: "timers pending_ui1 0 = Some \<lparr>timer_after = 50, timer_cb = cb_ui1\<rparr>"
    by (simp add: pending_ui1_eq)
  have on_disk: "cb_path (timer_cb \<lparr>timer_after = 50, timer_cb = cb_ui1\<rparr>) \<in> uploads pending_ui1"
    by (simp add: pending_ui1_eq cb_ui1_def)
  have fresh: "awaiting pending_ui1 = [] \<and> delivered pending_ui1 = [] \<and> emitted pending_ui1 = []"
    by (simp add: pending_ui1_eq)
  have names: "cb_groupId cb_ui1 = Some ''grp@x'' \<and> cb_path cb_ui1 = photo
      \<and> cb_uiId cb_ui1 = Some ''ui-1''"
    by (simp add: cb_ui1_def)
  from timer_delivers [OF armed on_disk] armed on_disk
  show ?thesis
    by (simp add: fresh names)
qed

text \<open>
  The claim as written takes the presence of the task as the condition. Here \<^verbatim>\<open>ui-1\<close> and
  \<^verbatim>\<open>ui-3\<close> were uploaded under one file name and \<^verbatim>\<open>ui-1\<close> has been cancelled, which deleted
  the file. The task \<^verbatim>\<open>ui-3\<close> is in the map and its timer is armed; when the timer fires no
  delivery is started, nothing is delivered or emitted, and the entry is dropped.
\<close>

theorem present_without_file_counterexample:
  "scheduledTasks twin_left (Some ''ui-3'') = Some \<lparr>timeout = 1, filePath = photo\<rparr>
   \<and> timers twin_left 1 =
       Some \<lparr>timer_after = 50,
             timer_cb = \<lparr>cb_path = photo, cb_groupId = Some ''grp@y'', cb_uiId = Some ''ui-3''\<rparr>\<rparr>
   \<and> photo \<notin> uploads twin_left
   \<and> awaiting (timer_fires 1 twin_left) = []
   \<and> delivered (timer_fires 1 twin_left) = []
   \<and> emitted (timer_fires 1 twin_left) = []
   \<and> scheduledTasks (timer_fires 1 twin_left) (Some ''ui-3'') = None"
  by (simp add: twin_left_def pending_ui1_eq api_schedule_def api_cancel_def
      upload_single_def req_twin_def getTime_sample_def delay_of_def negative_def
      setTimeout_def timeout_after_def clearTimeout_def unlink_def timer_fires_def Let_def)

section \<open>Requests that are accepted\<close>

lemma api_schedule_accepts:
  "req_file req = Some p \<Longrightarrow> \<not> negative (delay_of getTime now (scheduleTime req)) \<Longrightarrow>
   api_schedule getTime now req s =
     (\<lparr>http_status = 200,
       http_body = [(''status'', Some ''Scheduled''), (''id'', uiId req)]\<rparr>,
      s\<lparr>uploads := insert p (uploads s),
        timers := (timers s)(next_timeout s \<mapsto>
          \<lparr>timer_after = timeout_after (delay_of getTime now (scheduleTime req)),
           timer_cb = \<lparr>cb_path = p, cb_groupId = groupId req, cb_uiId = uiId req\<rparr>\<rparr>),
        next_timeout := next_timeout s + 1,
        scheduledTasks := (scheduledTasks s)
          (uiId req \<mapsto> \<lparr>timeout = next_timeout s, filePath = p\<rparr>)\<rparr>)"
  by (simp add: api_schedule_def upload_single_def setTimeout_def Let_def)

lemma api_schedule_part000_accepts:
  "req_file req = Some p \<Longrightarrow> \<not> falsy (groupId req) \<Longrightarrow> \<not> falsy (scheduleTime req) \<Longrightarrow>
   \<not> falsy (uiId req) \<Longrightarrow> \<not> negative (delay_of getTime now (scheduleTime req)) \<Longrightarrow>
   api_schedule_part000 getTime now req s =
     (\<lparr>http_status = 200,
       http_body = [(''status'', Some ''Scheduled''), (''id'', uiId req)]\<rparr>,
      s\<lparr>uploads := insert p (uploads s),
        timers := (timers s)(next_timeout s \<mapsto>
          \<lparr>timer_after = timeout_after (delay_of getTime now (scheduleTime req)),
           timer_cb = \<lparr>cb_path = p, cb_groupId = groupId req, cb_uiId = uiId req\<rparr>\<rparr>),
        next_timeout := next_timeout s + 1,
        scheduledTasks := (scheduledTasks s)
          (uiId req \<mapsto> \<lparr>timeout = next_timeout s, filePath = p\<rparr>)\<rparr>)"
  by (simp add: api_schedule_part000_def upload_single_def setTimeout_def Let_def)

lemma api_schedule_past:
  "req_file req = Some p \<Longrightarrow> negative (delay_of getTime now (scheduleTime req)) \<Longrightarrow>
   api_schedule getTime now req s =
     (\<lparr>http_status = 400, http_body = [(''error'', Some ''Past time'')]\<rparr>,
      s\<lparr>uploads := uploads s - {p}\<rparr>)"
  by (simp add: api_schedule_def upload_single_def unlink_def Let_def)

lemma api_schedule_part000_past:
  "req_file req = Some p \<Longrightarrow> \<not> falsy (groupId req) \<Longrightarrow> \<not> falsy (scheduleTime req) \<Longrightarrow>
   \<not> falsy (uiId req) \<Longrightarrow> negative (delay_of getTime now (scheduleTime req)) \<Longrightarrow>
   api_schedule_part000 getTime now req s =
     (\<lparr>http_status = 400,
       http_body = [(''error'', Some ''Scheduled time is in the past.'')]\<rparr>,
      s\<lparr>uploads := uploads s - {p}\<rparr>)"
  by (simp add: api_schedule_part000_def upload_single_def unlink_def Let_def)

lemma api_schedule_part000_missing:
  "falsy (groupId req) \<or> falsy (scheduleTime req) \<or> falsy (uiId req) \<Longrightarrow>
   api_schedule_part000 getTime now req s =
     (\<lparr>http_status = 400, http_body = [(''error'', Some ''Missing required data'')]\<rparr>,
      upload_single req s)"
  by (auto simp add: api_schedule_part000_def Let_def split: option.splits)

lemma negative_iff:
  "negative (delay_of getTime now x) \<longleftrightarrow> (\<exists>target. getTime x = Some target \<and> target < now)"
  by (simp add: negative_def delay_of_def split: option.splits)

section \<open>A second request with a pending id\<close>

text \<open>
  Claim C2, as amended. Neither handler looks the id up before it stores the task. A
  request whose \<^verbatim>\<open>uiId\<close> is already in the map, with a file and a time that is not in the
  past (and, in the second file, with its three fields non-empty), is accepted: a new
  timer is armed, the entry of the id is replaced by the new timer and the new file, and
  the uploaded file stays. The timer of the earlier task stays armed and its file stays on
  disk. The handle of the earlier entry is below the next handle, as \<open>handles_fresh\<close>
  gives for every state the process reaches.
\<close>

theorem duplicate_id_replaces:
  assumes pending: "scheduledTasks s (uiId req) = Some old"
    and upload: "req_file req = Some p"
    and not_past: "\<not> negative (delay_of getTime now (scheduleTime req))"
    and older: "timeout old < next_timeout s"
  shows
    "fst (api_schedule getTime now req s) =
       \<lparr>http_status = 200, http_body = [(''status'', Some ''Scheduled''), (''id'', uiId req)]\<rparr>
   \<and> scheduledTasks (snd (api_schedule getTime now req s)) (uiId req) =
       Some \<lparr>timeout = next_timeout s, filePath = p\<rparr>
   \<and> timers (snd (api_schedule getTime now req s)) (next_timeout s) =
       Some \<lparr>timer_after = timeout_after (delay_of getTime now (scheduleTime req)),
             timer_cb = \<lparr>cb_path = p, cb_groupId = groupId req, cb_uiId = uiId req\<rparr>\<rparr>
   \<and> p \<in> uploads (snd (api_schedule getTime now req s))
   \<and> timers (snd (api_schedule getTime now req s)) (timeout old) = timers s (timeout old)
   \<and> uploads s \<subseteq> uploads (snd (api_schedule getTime now req s))
   \<and> (\<not> falsy (groupId req) \<and> \<not> falsy (scheduleTime req) \<and> \<not> falsy (uiId req) \<longrightarrow>
        api_schedule_part000 getTime now req s = api_schedule getTime now req s)"
  using older
  by (auto simp add: api_schedule_accepts [OF upload not_past]
      api_schedule_part000_accepts [OF upload _ _ _ not_past])

theorem duplicate_id_replaces_witness:
  "scheduledTasks pending_ui1 (uiId req_again) = Some \<lparr>timeout = 0, filePath = photo\<rparr>
   \<and> req_file req_again = Some ''1700000000123-other.jpg''
   \<and> \<not> negative (delay_of getTime_sample 1893455999950 (scheduleTime req_again))
   \<and> timeout \<lparr>timeout = 0, filePath = photo\<rparr> < next_timeout pending_ui1
   \<and> \<not> falsy (groupId req_again) \<and> \<not> falsy (scheduleTime req_again)
   \<and> \<not> falsy (uiId req_again)
   \<and> scheduledTasks (snd (api_schedule getTime_sample 1893455999950 req_again pending_ui1))
       (uiId req_again) = Some \<lparr>timeout = 1, filePath = ''1700000000123-other.jpg''\<rparr>
   \<and> timers (snd (api_schedule getTime_sample 1893455999950 req_again pending_ui1)) 0 =
       Some \<lparr>timer_after = 50, timer_cb = cb_ui1\<rparr>
   \<and> api_schedule_part000 getTime_sample 1893455999950 req_again pending_ui1 =
       api_schedule getTime_sample 1893455999950 req_again pending_ui1"
proof -
  have pending: "scheduledTasks pending_ui1 (uiId req_again) =
      Some \<lparr>timeout = 0, filePath = photo\<rparr>"
    by (simp add: pending_ui1_eq req_again_def)
  have upload: "req_file req_again = Some ''1700000000123-other.jpg''"
    by (simp add: req_again_def)
  have not_past: "\<not> negative (delay_of getTime_sample 1893455999950 (scheduleTime req_again))"
    by (simp add: req_again_def getTime_sample_def delay_of_def negative_def)
  have older: "timeout \<lparr>timeout = 0, filePath = photo\<rparr> < next_timeout pending_ui1"
    by (simp add: pending_ui1_eq)
  have fields: "\<not> falsy (groupId req_again) \<and> \<not> falsy (scheduleTime req_again)
      \<and> \<not> falsy (uiId req_again)"
    by (simp add: req_again_def falsy_def)
  have before: "next_timeout pending_ui1 = 1
      \<and> timers pending_ui1 0 = Some \<lparr>timer_after = 50, timer_cb = cb_ui1\<rparr>"
    by (simp add: pending_ui1_eq)
  from duplicate_id_replaces [OF pending upload not_past older]
    pending upload not_past older fields before
  show ?thesis
    by simp
qed

text \<open>
  The claim as written has the second request rejected, the first task unchanged and the
  second upload deleted. With \<^verbatim>\<open>ui-1\<close> pending, a second request for \<^verbatim>\<open>ui-1\<close> is answered
  \<^verbatim>\<open>Scheduled\<close> by both files, the entry now holds the second timer and file, and the second
  upload is on disk.
\<close>

theorem duplicate_id_counterexample:
  "scheduledTasks pending_ui1 (Some ''ui-1'') = Some \<lparr>timeout = 0, filePath = photo\<rparr>
   \<and> fst (api_schedule getTime_sample 1893455999950 req_again pending_ui1) =
       \<lparr>http_status = 200,
        http_body = [(''status'', Some ''Scheduled''), (''id'', Some ''ui-1'')]\<rparr>
   \<and> scheduledTasks (snd (api_schedule getTime_sample 1893455999950 req_again pending_ui1))
       (Some ''ui-1'') = Some \<lparr>timeout = 1, filePath = ''1700000000123-other.jpg''\<rparr>
   \<and> ''1700000000123-other.jpg'' \<in>
       uploads (snd (api_schedule getTime_sample 1893455999950 req_again pending_ui1))
   \<and> fst (api_schedule_part000 getTime_sample 1893455999950 req_again pending_ui1_part000) =
       \<lparr>http_status = 200,
        http_body = [(''status'', Some ''Scheduled''), (''id'', Some ''ui-1'')]\<rparr>
   \<and> scheduledTasks
       (snd (api_schedule_part000 getTime_sample 1893455999950 req_again pending_ui1_part000))
       (Some ''ui-1'') = Some \<lparr>timeout = 1, filePath = ''1700000000123-other.jpg''\<rparr>
   \<and> ''1700000000123-other.jpg'' \<in> uploads
       (snd (api_schedule_part000 getTime_sample 1893455999950 req_again pending_ui1_part000))"
  by (simp add: pending_ui1_part000_eq pending_ui1_eq api_schedule_def
      api_schedule_part000_def upload_single_def req_again_def falsy_def getTime_sample_def
      delay_of_def negative_def setTimeout_def timeout_after_def Let_def)

section \<open>A time in the past\<close>

text \<open>
  Claim C4, as amended. The check is \<^verbatim>\<open>delay < 0\<close>. A request with a file whose time
  parses to a moment strictly before the current time is answered 400, its upload is
  deleted, and the map and the timers are as before. A request with a file whose time is
  the current time has the delay 0 and is accepted: it is answered \<^verbatim>\<open>Scheduled\<close>, its
  upload is kept, the task is stored and its timer is armed with the shortest delay,
  1 millisecond. In the second file both hold for a request whose three fields are
  non-empty (a request with a field missing is answered 400 before the time is looked
  at).
\<close>

theorem past_time_rejected:
  assumes upload: "req_file req = Some p"
    and parsed: "getTime (scheduleTime req) = Some target"
  shows
    "(target < now \<longrightarrow>
        fst (api_schedule getTime now req s) =
          \<lparr>http_status = 400, http_body = [(''error'', Some ''Past time'')]\<rparr>
      \<and> p \<notin> uploads (snd (api_schedule getTime now req s))
      \<and> scheduledTasks (snd (api_schedule getTime now req s)) = scheduledTasks s
      \<and> timers (snd (api_schedule getTime now req s)) = timers s
      \<and> (\<not> falsy (groupId req) \<and> \<not> falsy (scheduleTime req) \<and> \<not> falsy (uiId req) \<longrightarrow>
           fst (api_schedule_part000 getTime now req s) =
             \<lparr>http_status = 400,
              http_body = [(''error'', Some ''Scheduled time is in the past.'')]\<rparr>
         \<and> p \<notin> uploads (snd (api_schedule_part000 getTime now req s))
         \<and> scheduledTasks (snd (api_schedule_part000 getTime now req s)) = scheduledTasks s
         \<and> timers (snd (api_schedule_part000 getTime now req s)) = timers s))
   \<and> (target = now \<longrightarrow>
        fst (api_schedule getTime now req s) =
          \<lparr>http_status = 200,
           http_body = [(''status'', Some ''Scheduled''), (''id'', uiId req)]\<rparr>
      \<and> p \<in> uploads (snd (api_schedule getTime now req s))
      \<and> scheduledTasks (snd (api_schedule getTime now req s)) (uiId req) =
          Some \<lparr>timeout = next_timeout s, filePath = p\<rparr>
      \<and> timers (snd (api_schedule getTime now req s)) (next_timeout s) =
          Some \<lparr>timer_after = 1,
                timer_cb = \<lparr>cb_path = p, cb_groupId = groupId req, cb_uiId = uiId req\<rparr>\<rparr>
      \<and> (\<not> falsy (groupId req) \<and> \<not> falsy (scheduleTime req) \<and> \<not> falsy (uiId req) \<longrightarrow>
           api_schedule_part000 getTime now req s = api_schedule getTime now req s))"
proof (intro conjI impI)
  assume past: "target < now"
  have neg: "negative (delay_of getTime now (scheduleTime req))"
    using parsed past by (simp add: negative_iff)
  show "fst (api_schedule getTime now req s) =
      \<lparr>http_status = 400, http_body = [(''error'', Some ''Past time'')]\<rparr>"
    by (simp add: api_schedule_past [OF upload neg])
  show "p \<notin> uploads (snd (api_schedule getTime now req s))"
    by (simp add: api_schedule_past [OF upload neg])
  show "scheduledTasks (snd (api_schedule getTime now req s)) = scheduledTasks s"
    by (simp add: api_schedule_past [OF upload neg])
  show "timers (snd (api_schedule getTime now req s)) = timers s"
    by (simp add: api_schedule_past [OF upload neg])
next
  assume past: "target < now"
    and fields: "\<not> falsy (groupId req) \<and> \<not> falsy (scheduleTime req) \<and> \<not> falsy (uiId req)"
  have neg: "negative (delay_of getTime now (scheduleTime req))"
    using parsed past by (simp add: negative_iff)
  have second: "api_schedule_part000 getTime now req s =
      (\<lparr>http_status = 400,
        http_body = [(''error'', Some ''Scheduled time is in the past.'')]\<rparr>,
       s\<lparr>uploads := uploads s - {p}\<rparr>)"
    using fields by (simp add: api_schedule_part000_past [OF upload _ _ _ neg])
  show "fst (api_schedule_part000 getTime now req s) =
      \<lparr>http_status = 400,
       http_body = [(''error'', Some ''Scheduled time is in the past.'')]\<rparr>"
    by (simp add: second)
  show "p \<notin> uploads (snd (api_schedule_part000 getTime now req s))"
    by (simp add: second)
  show "scheduledTasks (snd (api_schedule_part000 getTime now req s)) = scheduledTasks s"
    by (simp add: second)
  show "timers (snd (api_schedule_part000 getTime now req s)) = timers s"
    by (simp add: second)
next
  assume same: "target = now"
  have zero: "delay_of getTime now (scheduleTime req) = Some 0"
    using parsed same by (simp add: delay_of_def)
  have not_past: "\<not> negative (delay_of getTime now (scheduleTime req))"
    by (simp add: zero negative_def)
  have shortest: "timeout_after (delay_of getTime now (scheduleTime req)) = 1"
    by (simp add: zero timeout_after_def)
  show "fst (api_schedule getTime now req s) =
      \<lparr>http_status = 200, http_body = [(''status'', Some ''Scheduled''), (''id'', uiId req)]\<rparr>"
    by (simp add: api_schedule_accepts [OF upload not_past])
  show "p \<in> uploads (snd (api_schedule getTime now req s))"
    by (simp add: api_schedule_accepts [OF upload not_past])
  show "scheduledTasks (snd (api_schedule getTime now req s)) (uiId req) =
      Some \<lparr>timeout = next_timeout s, filePath = p\<rparr>"
    by (simp add: api_schedule_accepts [OF upload not_past])
  show "timers (snd (api_schedule getTime now req s)) (next_timeout s) =
      Some \<lparr>timer_after = 1,
            timer_cb = \<lparr>cb_path = p, cb_groupId = groupId req, cb_uiId = uiId req\<rparr>\<rparr>"
    by (simp add: api_schedule_accepts [OF upload not_past] shortest)
next
  assume same: "target = now"
    and fields: "\<not> falsy (groupId req) \<and> \<not> falsy (scheduleTime req) \<and> \<not> falsy (uiId req)"
  have zero: "delay_of getTime now (scheduleTime req) = Some 0"
    using parsed same by (simp add: delay_of_def)
  have not_past: "\<not> negative (delay_of getTime now (scheduleTime req))"
    by (simp add: zero negative_def)
  show "api_schedule_part000 getTime now req s = api_schedule getTime now req s"
    using fields
    by (simp add: api_schedule_accepts [OF upload not_past]
        api_schedule_part000_accepts [OF upload _ _ _ not_past])
qed

theorem past_time_rejected_witness:
  "req_file req_late = Some photo
   \<and> getTime_sample (scheduleTime req_late) = Some 1893452400000
   \<and> (1893452400000 :: int) < 1893456000000
   \<and> \<not> falsy (groupId req_late) \<and> \<not> falsy (scheduleTime req_late) \<and> \<not> falsy (uiId req_late)
   \<and> fst (api_schedule getTime_sample 1893456000000 req_late init) =
       \<lparr>http_status = 400, http_body = [(''error'', Some ''Past time'')]\<rparr>
   \<and> photo \<notin> uploads (snd (api_schedule getTime_sample 1893456000000 req_late init))
   \<and> scheduledTasks (snd (api_schedule getTime_sample 1893456000000 req_late init)) =
       scheduledTasks init
   \<and> timers (snd (api_schedule getTime_sample 1893456000000 req_late init)) = timers init
   \<and> fst (api_schedule_part000 getTime_sample 1893456000000 req_late init) =
       \<lparr>http_status = 400,
        http_body = [(''error'', Some ''Scheduled time is in the past.'')]\<rparr>
   \<and> photo \<notin> uploads (snd (api_schedule_part000 getTime_sample 1893456000000 req_late init))
   \<and> req_file req_ui1 = Some photo
   \<and> getTime_sample (scheduleTime req_ui1) = Some 1893456000000
   \<and> \<not> falsy (groupId req_ui1) \<and> \<not> falsy (scheduleTime req_ui1) \<and> \<not> falsy (uiId req_ui1)
   \<and> fst (api_schedule getTime_sample 1893456000000 req_ui1 init) =
       \<lparr>http_status = 200,
        http_body = [(''status'', Some ''Scheduled''), (''id'', Some ''ui-1'')]\<rparr>
   \<and> photo \<in> uploads (snd (api_schedule getTime_sample 1893456000000 req_ui1 init))
   \<and> scheduledTasks (snd (api_schedule getTime_sample 1893456000000 req_ui1 init))
       (Some ''ui-1'') = Some \<lparr>timeout = 0, filePath = photo\<rparr>
   \<and> timers (snd (api_schedule getTime_sample 1893456000000 req_ui1 init)) 0 =
       Some \<lparr>timer_after = 1, timer_cb = cb_ui1\<rparr>
   \<and> api_schedule_part000 getTime_sample 1893456000000 req_ui1 init =
       api_schedule getTime_sample 1893456000000 req_ui1 init"
proof -
  have upload: "req_file req_late = Some photo"
    by (simp add: req_late_def)
  have parsed: "getTime_sample (scheduleTime req_late) = Some 1893452400000"
    by (simp add: req_late_def getTime_sample_def)
  have past: "(1893452400000 :: int) < 1893456000000"
    by simp
  have fields: "\<not> falsy (groupId req_late) \<and> \<not> falsy (scheduleTime req_late)
      \<and> \<not> falsy (uiId req_late)"
    by (simp add: req_late_def falsy_def)
  have upload': "req_file req_ui1 = Some photo"
    by (simp add: req_ui1_def)
  have parsed': "getTime_sample (scheduleTime req_ui1) = Some 1893456000000"
    by (simp add: req_ui1_def getTime_sample_def)
  have fields': "\<not> falsy (groupId req_ui1) \<and> \<not> falsy (scheduleTime req_ui1)
      \<and> \<not> falsy (uiId req_ui1)"
    by (simp add: req_ui1_def falsy_def)
  have names: "uiId req_ui1 = Some ''ui-1'' \<and> groupId req_ui1 = Some ''grp@x''
      \<and> next_timeout init = 0"
    by (simp add: req_ui1_def init_def)
  from past_time_rejected [where getTime = getTime_sample and req = req_late and s = init
         and now = 1893456000000, OF upload parsed]
       past_time_rejected [where getTime = getTime_sample and req = req_ui1 and s = init
         and now = 1893456000000, OF upload' parsed']
       upload parsed past fields upload' parsed' fields' names
  show ?thesis
    by (simp add: cb_ui1_def)
qed

text \<open>
  The claim as written rejects every time that is not strictly after the current time.
  A request whose time is the current millisecond has the delay 0, which is not below 0:
  both files accept it, store the task and arm a timer of the shortest delay.
\<close>

theorem trigger_now_counterexample:
  "delay_of getTime_sample 1893456000000 (scheduleTime req_ui1) = Some 0
   \<and> fst (api_schedule getTime_sample 1893456000000 req_ui1 init) =
       \<lparr>http_status = 200,
        http_body = [(''status'', Some ''Scheduled''), (''id'', Some ''ui-1'')]\<rparr>
   \<and> scheduledTasks (snd (api_schedule getTime_sample 1893456000000 req_ui1 init))
       (Some ''ui-1'') = Some \<lparr>timeout = 0, filePath = photo\<rparr>
   \<and> timers (snd (api_schedule getTime_sample 1893456000000 req_ui1 init)) 0 =
       Some \<lparr>timer_after = 1, timer_cb = cb_ui1\<rparr>
   \<and> photo \<in> uploads (snd (api_schedule getTime_sample 1893456000000 req_ui1 init))
   \<and> fst (api_schedule_part000 getTime_sample 1893456000000 req_ui1 init) =
       \<lparr>http_status = 200,
        http_body = [(''status'', Some ''Scheduled''), (''id'', Some ''ui-1'')]\<rparr>
   \<and> timers (snd (api_schedule_part000 getTime_sample 1893456000000 req_ui1 init)) 0 =
       Some \<lparr>timer_after = 1, timer_cb = cb_ui1\<rparr>"
  by (simp add: api_schedule_def api_schedule_part000_def upload_single_def req_ui1_def
      init_def falsy_def getTime_sample_def delay_of_def negative_def setTimeout_def
      timeout_after_def cb_ui1_def Let_def)

section \<open>What a rejected request leaves behind\<close>

text \<open>
  Claim C6 says that every rejected request has its upload deleted. The second file
  answers a request that has a file and lacks a field with 400 and returns at once: the
  upload of the request stays in the upload directory. Its own next branch, the time in
  the past, unlinks the upload before it answers, as the first conjuncts for the same file
  show. (\<^verbatim>\<open>server.js\<close> has no such branch: it rejects for a missing file or a past time
  only.)
\<close>

theorem missing_field_keeps_upload:
  "req_file req_no_group = Some photo
   \<and> fst (api_schedule_part000 getTime_sample 1893456000000 req_late init) =
       \<lparr>http_status = 400,
        http_body = [(''error'', Some ''Scheduled time is in the past.'')]\<rparr>
   \<and> photo \<notin> uploads (snd (api_schedule_part000 getTime_sample 1893456000000 req_late init))
   \<and> fst (api_schedule_part000 getTime_sample 1893455999950 req_no_group init) =
       \<lparr>http_status = 400, http_body = [(''error'', Some ''Missing required data'')]\<rparr>
   \<and> scheduledTasks (snd (api_schedule_part000 getTime_sample 1893455999950 req_no_group init))
       (Some ''ui-1'') = None
   \<and> photo \<in> uploads (snd (api_schedule_part000 getTime_sample 1893455999950 req_no_group init))"
  by (simp add: api_schedule_part000_def upload_single_def unlink_def req_no_group_def
      req_late_def init_def falsy_def getTime_sample_def delay_of_def negative_def Let_def)

section \<open>Which requests are rejected\<close>

text \<open>
  Claim C8, as amended. \<^verbatim>\<open>server.js\<close> answers 400 exactly when the file is absent or the
  time parses to a moment before the current time; the second file answers 400 exactly
  when the file is absent, or \<^verbatim>\<open>groupId\<close>, \<^verbatim>\<open>scheduleTime\<close> or \<^verbatim>\<open>uiId\<close> is missing or
  empty, or the time parses to a moment before the current time. A request answered 400
  creates no task and arms no timer. So \<^verbatim>\<open>server.js\<close> does not validate the destination
  or the id, and neither file rejects a time that does not parse or that is the current
  time.
\<close>

theorem schedule_rejections:
  "(http_status (fst (api_schedule getTime now req s)) = 400 \<longleftrightarrow>
      req_file req = None
      \<or> (\<exists>target. getTime (scheduleTime req) = Some target \<and> target < now))
   \<and> (http_status (fst (api_schedule_part000 getTime now req s)) = 400 \<longleftrightarrow>
      req_file req = None \<or> falsy (groupId req) \<or> falsy (scheduleTime req)
      \<or> falsy (uiId req)
      \<or> (\<exists>target. getTime (scheduleTime req) = Some target \<and> target < now))
   \<and> (http_status (fst (api_schedule getTime now req s)) = 400 \<longrightarrow>
        scheduledTasks (snd (api_schedule getTime now req s)) = scheduledTasks s
      \<and> timers (snd (api_schedule getTime now req s)) = timers s)
   \<and> (http_status (fst (api_schedule_part000 getTime now req s)) = 400 \<longrightarrow>
        scheduledTasks (snd (api_schedule_part000 getTime now req s)) = scheduledTasks s
      \<and> timers (snd (api_schedule_part000 getTime now req s)) = timers s)"
proof -
  have server: "http_status (fst (api_schedule getTime now req s)) = 400 \<longleftrightarrow>
      req_file req = None \<or> negative (delay_of getTime now (scheduleTime req))"
    by (simp add: api_schedule_def setTimeout_def Let_def split: option.splits)
  have second: "http_status (fst (api_schedule_part000 getTime now req s)) = 400 \<longleftrightarrow>
      req_file req = None \<or> falsy (groupId req) \<or> falsy (scheduleTime req)
      \<or> falsy (uiId req) \<or> negative (delay_of getTime now (scheduleTime req))"
    by (simp add: api_schedule_part000_def setTimeout_def Let_def split: option.splits)
  have server_frame: "http_status (fst (api_schedule getTime now req s)) = 400 \<longrightarrow>
        scheduledTasks (snd (api_schedule getTime now req s)) = scheduledTasks s
      \<and> timers (snd (api_schedule getTime now req s)) = timers s"
    by (simp add: api_schedule_def upload_single_def unlink_def setTimeout_def Let_def
        split: option.splits)
  have second_frame: "http_status (fst (api_schedule_part000 getTime now req s)) = 400 \<longrightarrow>
        scheduledTasks (snd (api_schedule_part000 getTime now req s)) = scheduledTasks s
      \<and> timers (snd (api_schedule_part000 getTime now req s)) = timers s"
    by (simp add: api_schedule_part000_def upload_single_def unlink_def setTimeout_def
        Let_def split: option.splits)
  from server second server_frame second_frame show ?thesis
    by (simp only: negative_iff)
qed

theorem schedule_rejections_witness:
  "getTime_sample (scheduleTime req_late) = Some 1893452400000
   \<and> (1893452400000 :: int) < 1893456000000
   \<and> http_status (fst (api_schedule getTime_sample 1893456000000 req_late init)) = 400
   \<and> scheduledTasks (snd (api_schedule getTime_sample 1893456000000 req_late init)) =
       scheduledTasks init
   \<and> timers (snd (api_schedule getTime_sample 1893456000000 req_late init)) = timers init
   \<and> falsy (groupId req_no_group)
   \<and> http_status (fst (api_schedule_part000 getTime_sample 1893455999950 req_no_group init)) =
       400
   \<and> scheduledTasks (snd (api_schedule_part000 getTime_sample 1893455999950 req_no_group init))
       = scheduledTasks init
   \<and> timers (snd (api_schedule_part000 getTime_sample 1893455999950 req_no_group init)) =
       timers init"
proof -
  have parsed: "getTime_sample (scheduleTime req_late) = Some 1893452400000"
    by (simp add: req_late_def getTime_sample_def)
  have past: "(1893452400000 :: int) < 1893456000000"
    by simp
  have missing: "falsy (groupId req_no_group)"
    by (simp add: req_no_group_def falsy_def)
  from schedule_rejections
         [where getTime = getTime_sample and now = 1893456000000 and req = req_late
            and s = init]
       schedule_rejections
         [where getTime = getTime_sample and now = 1893455999950 and req = req_no_group
            and s = init]
       parsed past missing
  show ?thesis
    by simp
qed

text \<open>
  The claim as written has all four inputs validated by the handler.
  \<^verbatim>\<open>server.js\<close> accepts a request without destination and without id and stores it under
  the key \<^verbatim>\<open>undefined\<close>; the second file accepts a request whose time is no date.
\<close>

theorem unvalidated_fields_counterexample:
  "groupId req_bare = None \<and> uiId req_bare = None
   \<and> fst (api_schedule getTime_sample 1893455999950 req_bare init) =
       \<lparr>http_status = 200, http_body = [(''status'', Some ''Scheduled''), (''id'', None)]\<rparr>
   \<and> scheduledTasks (snd (api_schedule getTime_sample 1893455999950 req_bare init)) None =
       Some \<lparr>timeout = 0, filePath = photo\<rparr>
   \<and> getTime_sample (scheduleTime req_nodate) = None
   \<and> http_status (fst (api_schedule_part000 getTime_sample 1893455999950 req_nodate init)) =
       200
   \<and> scheduledTasks (snd (api_schedule_part000 getTime_sample 1893455999950 req_nodate init))
       (Some ''ui-1'') = Some \<lparr>timeout = 0, filePath = photo\<rparr>"
  by (simp add: api_schedule_def api_schedule_part000_def upload_single_def req_bare_def
      req_nodate_def init_def falsy_def getTime_sample_def delay_of_def negative_def
      setTimeout_def Let_def)

section \<open>A time that does not parse\<close>

text \<open>
  Claim C10, as amended. A request with a file whose \<^verbatim>\<open>scheduleTime\<close> does not parse has
  the delay \<^verbatim>\<open>NaN\<close>; \<^verbatim>\<open>delay < 0\<close> is false; \<^verbatim>\<open>server.js\<close> accepts the request, stores the
  task and arms its timer with \<^verbatim>\<open>NaN\<close>, which Node turns into 1 millisecond, the shortest
  delay there is. The second file does the same for a request whose \<^verbatim>\<open>groupId\<close>,
  \<^verbatim>\<open>scheduleTime\<close> and \<^verbatim>\<open>uiId\<close> are non-empty.
\<close>

theorem unparseable_accepted:
  assumes upload: "req_file req = Some p"
    and nan: "getTime (scheduleTime req) = None"
  shows
    "delay_of getTime now (scheduleTime req) = None
   \<and> \<not> negative (delay_of getTime now (scheduleTime req))
   \<and> fst (api_schedule getTime now req s) =
       \<lparr>http_status = 200, http_body = [(''status'', Some ''Scheduled''), (''id'', uiId req)]\<rparr>
   \<and> scheduledTasks (snd (api_schedule getTime now req s)) (uiId req) =
       Some \<lparr>timeout = next_timeout s, filePath = p\<rparr>
   \<and> timers (snd (api_schedule getTime now req s)) (next_timeout s) =
       Some \<lparr>timer_after = 1,
             timer_cb = \<lparr>cb_path = p, cb_groupId = groupId req, cb_uiId = uiId req\<rparr>\<rparr>
   \<and> (\<not> falsy (groupId req) \<and> \<not> falsy (scheduleTime req) \<and> \<not> falsy (uiId req) \<longrightarrow>
        api_schedule_part000 getTime now req s = api_schedule getTime now req s)"
proof -
  have d: "delay_of getTime now (scheduleTime req) = None"
    using nan by (simp add: delay_of_def)
  have not_past: "\<not> negative (delay_of getTime now (scheduleTime req))"
    by (simp add: d negative_def)
  show ?thesis
    by (simp add: api_schedule_accepts [OF upload not_past]
        api_schedule_part000_accepts [OF upload _ _ _ not_past])
       (simp add: d negative_def timeout_after_def)
qed

theorem unparseable_accepted_witness:
  "req_file req_nodate = Some photo
   \<and> getTime_sample (scheduleTime req_nodate) = None
   \<and> \<not> falsy (groupId req_nodate) \<and> \<not> falsy (scheduleTime req_nodate)
   \<and> \<not> falsy (uiId req_nodate)
   \<and> fst (api_schedule getTime_sample 1893455999950 req_nodate init) =
       \<lparr>http_status = 200,
        http_body = [(''status'', Some ''Scheduled''), (''id'', Some ''ui-1'')]\<rparr>
   \<and> scheduledTasks (snd (api_schedule getTime_sample 1893455999950 req_nodate init))
       (Some ''ui-1'') = Some \<lparr>timeout = 0, filePath = photo\<rparr>
   \<and> timers (snd (api_schedule getTime_sample 1893455999950 req_nodate init)) 0 =
       Some \<lparr>timer_after = 1, timer_cb = cb_ui1\<rparr>
   \<and> api_schedule_part000 getTime_sample 1893455999950 req_nodate init =
       api_schedule getTime_sample 1893455999950 req_nodate init"
proof -
  have upload: "req_file req_nodate = Some photo"
    by (simp add: req_nodate_def)
  have nan: "getTime_sample (scheduleTime req_nodate) = None"
    by (simp add: req_nodate_def getTime_sample_def)
  have fields: "\<not> falsy (groupId req_nodate) \<and> \<not> falsy (scheduleTime req_nodate)
      \<and> \<not> falsy (uiId req_nodate)"
    by (simp add: req_nodate_def falsy_def)
  have names: "uiId req_nodate = Some ''ui-1'' \<and> groupId req_nodate = Some ''grp@x''
      \<and> next_timeout init = 0"
    by (simp add: req_nodate_def init_def)
  from unparseable_accepted
         [where getTime = getTime_sample and req = req_nodate and s = init
            and now = 1893455999950, OF upload nan]
       upload nan fields names
  show ?thesis
    by (simp add: cb_ui1_def)
qed

text \<open>
  The claim as written covers every request with a file. In the second file a request
  with a file and a time that is no date, and without a destination, is answered 400
  before the time is parsed, and no task is created.
\<close>

theorem unparseable_missing_field_counterexample:
  "req_file req_nodate_no_group = Some photo
   \<and> getTime_sample (scheduleTime req_nodate_no_group) = None
   \<and> fst (api_schedule_part000 getTime_sample 1893455999950 req_nodate_no_group init) =
       \<lparr>http_status = 400, http_body = [(''error'', Some ''Missing required data'')]\<rparr>
   \<and> scheduledTasks
       (snd (api_schedule_part000 getTime_sample 1893455999950 req_nodate_no_group init))
       (Some ''ui-1'') = None
   \<and> timers (snd (api_schedule_part000 getTime_sample 1893455999950 req_nodate_no_group init))
       0 = None"
  by (simp add: api_schedule_part000_def upload_single_def req_nodate_no_group_def init_def
      falsy_def getTime_sample_def)

end
